theory Spec2Isabelle
  imports Complex_Main "HOL-Library.Word" "HOL-Library.Log_Nat"
begin

unbundle bit_operations_syntax

section \<open>The success-rate scoring engine (mlPredictor.js)\<close>

text \<open>
  Numbers. JavaScript numbers are IEEE doubles; they are modelled by \<open>real\<close>, so
  rounding, overflow and the infinities are idealised away. The one non-number that the
  source can produce from well-typed data, \<open>NaN\<close> (from reading an array element that
  is not there, or from \<open>0 * (x / 0)\<close>), is kept: a numeric result is a \<open>real option\<close>
  wherever the source can produce it, and \<open>None\<close> stands for "a \<open>NaN\<close> has appeared".

  Strings. A JavaScript string is modelled by a HOL \<open>string\<close>; \<open>length\<close> counts
  characters as \<open>.length\<close> counts code units, and \<open>toLowerCase\<close> is the ASCII
  mapping \<open>A..Z\<close> to \<open>a..z\<close>. A field that may be \<open>undefined\<close> or \<open>null\<close> is a
  \<open>string option\<close>; a field holding a value of another JavaScript type is outside the
  model.
\<close>

subsection \<open>Utilities\<close>

definition sigmoid :: "real \<Rightarrow> real" where
  "sigmoid z = 1 / (1 + exp (- z))"

definition clamp01 :: "real \<Rightarrow> real" where
  "clamp01 v = max 0 (min 1 v)"

text \<open>
  \<open>logNormalize x\<close> is \<open>Math.log(1 + Math.max(0, Number(x) || 0)) / Math.log(1 + 1e6)\<close>.
  The argument is \<open>None\<close> for a value whose \<open>Number(x)\<close> is \<open>NaN\<close> (such as \<open>undefined\<close>);
  \<open>|| 0\<close> turns that into 0 and leaves every number as it is.
\<close>

definition logNormalize :: "real option \<Rightarrow> real" where
  "logNormalize x =
     ln (1 + max 0 (case x of None \<Rightarrow> 0 | Some r \<Rightarrow> r)) / ln (1 + 1000000)"

definition CATEGORY_VALUES :: "string list" where
  "CATEGORY_VALUES =
     [''agriculture'', ''education'', ''healthcare'', ''technology'', ''infrastructure'', ''other'']"

definition LOCATION_VALUES :: "string list" where
  "LOCATION_VALUES = [''urban'', ''suburban'', ''rural'', ''coastal'', ''inland'', ''unknown'']"

definition toLowerChar :: "char \<Rightarrow> char" where
  "toLowerChar c =
     (let n = (of_char c :: nat) in if 65 \<le> n \<and> n \<le> 90 then char_of (n + 32) else c)"

definition toLowerCase :: "string \<Rightarrow> string" where
  "toLowerCase s = map toLowerChar s"

text \<open>\<open>Array.prototype.indexOf\<close>: the first index holding the value, or \<open>-1\<close>.\<close>

fun indexOf :: "'a list \<Rightarrow> 'a \<Rightarrow> int" where
  "indexOf [] v = - 1"
| "indexOf (x # xs) v =
     (if x = v then 0 else (let r = indexOf xs v in if r < 0 then - 1 else r + 1))"

text \<open>\<open>value || ''\<close> for a string that may be absent.\<close>

definition orEmpty :: "string option \<Rightarrow> string" where
  "orEmpty v = (case v of None \<Rightarrow> [] | Some s \<Rightarrow> s)"

definition oneHot :: "string option \<Rightarrow> string list \<Rightarrow> real list" where
  "oneHot v vals =
     (let idx = indexOf vals (toLowerCase (orEmpty v))
      in map (\<lambda>i. if int i = (if idx \<ge> 0 then idx else int (length vals) - 1) then 1 else 0)
           [0..<length vals])"

subsection \<open>Feature encoder\<close>

text \<open>
  The object handed to \<open>buildFeatures\<close>. \<open>requiredFunding\<close> is \<open>None\<close> when it is
  missing or not a number.
\<close>

record signal =
  category :: "string option"
  requiredFunding :: "real option"
  targetAudience :: "string option"
  authorLocation :: "string option"

definition buildFeatures :: "signal \<Rightarrow> real list" where
  "buildFeatures inp =
     (let categoryOneHot = oneHot (category inp) CATEGORY_VALUES;
          locationOneHot = oneHot (authorLocation inp) LOCATION_VALUES;
          funding = logNormalize (requiredFunding inp);
          audienceLen = min 1 (real (length (orEmpty (targetAudience inp))) / 200)
      in categoryOneHot @ [funding, audienceLen] @ locationOneHot)"

definition featureDim :: nat where
  "featureDim = length CATEGORY_VALUES + 1 + 1 + length LOCATION_VALUES"

text \<open>
  The layout of a feature vector: the category block comes first, the location block
  after the two scalars.
\<close>

definition categoryBlock :: "real list \<Rightarrow> real list" where
  "categoryBlock x = take (length CATEGORY_VALUES) x"

definition locationBlock :: "real list \<Rightarrow> real list" where
  "locationBlock x = drop (length CATEGORY_VALUES + 2) x"

subsection \<open>Deterministic pseudorandom generator\<close>

text \<open>
  \<open>mulberry32(a)\<close> returns a closure over its own variable \<open>a\<close>, and every call of
  the closure writes to that variable. The variables of all the closures made so far
  are the cells of a heap; \<open>mulberry32\<close> takes a fresh cell, and a closure is the
  index of its cell.

  The source adds \<open>0x6D2B79F5\<close> to \<open>a\<close> as a number and never truncates \<open>a\<close>
  itself: the cell holds the integer value of a double. Below \<open>2^53\<close> the sum is
  exact; from there on it is rounded to 53 significant bits, ties to even, which is
  \<open>to_double\<close>. The bitwise operators and \<open>Math.imul\<close> work on the low 32 bits of
  the rounded sum.
\<close>

definition to_double :: "int \<Rightarrow> int" where
  "to_double x =
     (let m = \<bar>x\<bar>; e = nat (bitlen m - 53) in
      if e = 0 then x
      else (let q = m div 2 ^ e; rest = m mod 2 ^ e; half = 2 ^ (e - 1);
                q' = (if rest > half then q + 1
                      else if rest = half \<and> q mod 2 = 1 then q + 1
                      else q)
            in sgn x * (q' * 2 ^ e)))"

record heap =
  cell :: "nat \<Rightarrow> int"
  fresh :: nat

definition mulberry32 :: "int \<Rightarrow> heap \<Rightarrow> nat \<times> heap" where
  "mulberry32 a h = (fresh h, h\<lparr>cell := (cell h)(fresh h := a), fresh := Suc (fresh h)\<rparr>)"

text \<open>A call \<open>rand()\<close> of the closure \<open>r\<close>: the number returned and the heap afterwards.\<close>

definition rand :: "nat \<Rightarrow> heap \<Rightarrow> real \<times> heap" where
  "rand r h =
     (let a = to_double (cell h r + 0x6D2B79F5);
          t0 = (word_of_int a :: 32 word);
          t1 = (t0 XOR drop_bit 15 t0) * (t0 OR 1);
          t2 = t1 XOR (t1 + (t1 XOR drop_bit 7 t1) * (t1 OR 61))
      in (real (unat (t2 XOR drop_bit 14 t2)) / 4294967296, h\<lparr>cell := (cell h)(r := a)\<rparr>))"

text \<open>
  Two heaps for concrete runs: the heap of a program that has made no generator yet,
  and the heap in which the only generator has its variable at \<open>a\<close>.
\<close>

definition no_generator :: heap where
  "no_generator = \<lparr>cell = (\<lambda>r. 0), fresh = 0\<rparr>"

definition one_generator :: "int \<Rightarrow> heap" where
  "one_generator a = \<lparr>cell = (\<lambda>r. 0)(0 := a), fresh = Suc 0\<rparr>"

subsection \<open>Synthetic dataset generation\<close>

text \<open>An array read \<open>xs[i]\<close>: \<open>None\<close> is \<open>undefined\<close>, the result out of range.\<close>

definition nth_opt :: "'a list \<Rightarrow> nat \<Rightarrow> 'a option" where
  "nth_opt xs i = (if i < length xs then Some (xs ! i) else None)"

definition categoryBase :: "string option \<Rightarrow> real" where
  "categoryBase c =
     (let s = toLowerCase (orEmpty c) in
      if s = ''technology'' then 1.0
      else if s = ''healthcare'' then 0.8
      else if s = ''education'' then 0.6
      else if s = ''infrastructure'' then 0.4
      else if s = ''agriculture'' then 0.5
      else 0.3)"

definition locationBase :: "string option \<Rightarrow> real" where
  "locationBase loc =
     (let s = toLowerCase (orEmpty loc) in
      if s = ''urban'' then 0.5
      else if s = ''suburban'' then 0.35
      else if s = ''coastal'' then 0.3
      else if s = ''inland'' then 0.15
      else if s = ''rural'' then 0.1
      else 0.0)"

definition lengths :: "nat list" where
  "lengths = [20, 60, 120, 180]"

definition words :: "string list" where
  "words = [''youth'', ''farmers'', ''smes'', ''patients'', ''developers'', ''teachers'',
     ''commuters'', ''tourists'', ''parents'', ''seniors'']"

text \<open>
  The loop of \<open>randomAudience\<close>: \<open>k\<close> pushes of a word drawn with the closure \<open>r\<close>.
\<close>

fun pick_words :: "nat \<Rightarrow> nat \<Rightarrow> heap \<Rightarrow> string option list \<times> heap" where
  "pick_words 0 r h = ([], h)"
| "pick_words (Suc k) r h =
     (let (v, h1) = rand r h;
          w = nth_opt words (nat \<lfloor>v * real (length words)\<rfloor>);
          (ws, h2) = pick_words k r h1
      in (w # ws, h2))"

text \<open>\<open>s.join(' ')\<close>; an \<open>undefined\<close> element is joined as the empty string.\<close>

fun join_space :: "string option list \<Rightarrow> string" where
  "join_space [] = []"
| "join_space [w] = orEmpty w"
| "join_space (w # ws) = orEmpty w @ '' '' @ join_space ws"

text \<open>
  When \<open>len\<close> is \<open>undefined\<close> the bound \<open>Math.floor(len / 6)\<close> is \<open>NaN\<close> and the loop
  body never runs.
\<close>

definition randomAudience :: "nat \<Rightarrow> heap \<Rightarrow> string \<times> heap" where
  "randomAudience r h =
     (let (v, h1) = rand r h;
          len = nth_opt lengths (nat \<lfloor>v * real (length lengths)\<rfloor>);
          (s, h2) = pick_words (case len of None \<Rightarrow> 0 | Some l \<Rightarrow> l div 6) r h1
      in (join_space s, h2))"

record rawRow = signal +
  success :: real

text \<open>
  The three arrays that \<open>generateSyntheticDataset\<close> returns (\<open>X\<close>, \<open>y\<close> and
  \<open>rawRows\<close> in the source).
\<close>

record dataset =
  Xs :: "real list list"
  ys :: "real list"
  rawRows :: "rawRow list"

text \<open>One iteration of the loop: the example it pushes and the heap afterwards.\<close>

definition sample :: "nat \<Rightarrow> heap \<Rightarrow> (real list \<times> real \<times> rawRow) \<times> heap" where
  "sample r h0 =
     (let (v1, h1) = rand r h0;
          cat = nth_opt CATEGORY_VALUES (nat \<lfloor>v1 * real (length CATEGORY_VALUES)\<rfloor>);
          (v2, h2) = rand r h1;
          loc = nth_opt LOCATION_VALUES (nat \<lfloor>v2 * real (length LOCATION_VALUES)\<rfloor>);
          (v3, h3) = rand r h2;
          funding = real_of_int \<lfloor>v3 * 300000\<rfloor>;
          (audience, h4) = randomAudience r h3;
          featuresInput = \<lparr>category = cat, requiredFunding = Some funding,
             targetAudience = Some audience, authorLocation = loc\<rparr>;
          feats = buildFeatures featuresInput;
          base0 = 0.0 + categoryBase cat;
          base1 = base0 - (funding / 300000) * 1.2;
          base2 = base1 + min 1 (real (length audience) / 200) * 0.6;
          base3 = base2 + locationBase loc;
          (v4, h5) = rand r h4;
          base4 = base3 + (v4 - 0.5) * 0.3;
          prob = sigmoid base4;
          label = (if prob > 0.5 then 1 else 0)
      in ((feats, label,
           \<lparr>category = cat, requiredFunding = Some funding, targetAudience = Some audience,
            authorLocation = loc, success = label\<rparr>), h5))"

fun gen_loop :: "nat \<Rightarrow> nat \<Rightarrow> heap \<Rightarrow> dataset \<Rightarrow> dataset \<times> heap" where
  "gen_loop 0 r h d = (d, h)"
| "gen_loop (Suc k) r h d =
     (let ((feats, label, row), h') = sample r h
      in gen_loop k r h'
           \<lparr>Xs = Xs d @ [feats], ys = ys d @ [label], rawRows = rawRows d @ [row]\<rparr>)"

text \<open>
  An invocation in the heap \<open>h\<close>: what it returns and the heap it leaves. The
  closure that \<open>mulberry32\<close> made stays in the heap.
\<close>

definition generateSyntheticDataset :: "nat \<Rightarrow> int \<Rightarrow> heap \<Rightarrow> dataset \<times> heap" where
  "generateSyntheticDataset numSamples seed h =
     (let (r, h1) = mulberry32 seed h
      in gen_loop numSamples r h1 \<lparr>Xs = [], ys = [], rawRows = []\<rparr>)"

subsection \<open>Logistic regression\<close>

record model =
  weights :: "real list"
  bias :: real

definition LogisticRegression :: "nat \<Rightarrow> model" where
  "LogisticRegression nFeatures = \<lparr>weights = replicate nFeatures 0, bias = 0\<rparr>"

text \<open>
  The loop of \<open>predictProba\<close>, from index \<open>i\<close> with the sum so far in \<open>z\<close>. Reading
  \<open>x[i]\<close> beyond the end of \<open>x\<close> gives \<open>undefined\<close>, the product is \<open>NaN\<close> and so is
  every later sum: the result is \<open>None\<close>.
\<close>

function predict_loop :: "real list \<Rightarrow> real list \<Rightarrow> nat \<Rightarrow> real \<Rightarrow> real option" where
  "predict_loop w x i z =
     (if i < length w
      then (if i < length x then predict_loop w x (Suc i) (z + w ! i * x ! i) else None)
      else Some z)"
  by pat_completeness auto
termination
  by (relation "measure (\<lambda>(w, x, i, z). length w - i)") auto

declare predict_loop.simps [simp del]

definition predictProba :: "model \<Rightarrow> real list \<Rightarrow> real option" where
  "predictProba m x = map_option sigmoid (predict_loop (weights m) x 0 (bias m))"

text \<open>
  The innermost loop of \<open>train\<close>: \<open>gradW[j] += error * X[i][j]\<close> for \<open>j\<close> below
  \<open>n = this.weights.length\<close>, on the row \<open>xi = X[i]\<close>.
\<close>

function accumulate_row :: "real \<Rightarrow> real list \<Rightarrow> nat \<Rightarrow> nat \<Rightarrow> real list \<Rightarrow> real list option" where
  "accumulate_row err xi n j gradW =
     (if j < n
      then (if j < length xi
            then accumulate_row err xi n (Suc j) (gradW[j := gradW ! j + err * xi ! j])
            else None)
      else Some gradW)"
  by pat_completeness auto
termination
  by (relation "measure (\<lambda>(err, xi, n, j, gradW). n - j)") auto

declare accumulate_row.simps [simp del]

text \<open>
  The loop over the examples, from index \<open>i\<close> with the gradients accumulated so far.
  The model \<open>m\<close> is the one at the start of the epoch: the loop does not write to it.
  A label \<open>y[i]\<close> that is not there makes the error \<open>NaN\<close>.
\<close>

function batch_loop ::
  "model \<Rightarrow> real list list \<Rightarrow> real list \<Rightarrow> nat \<Rightarrow> real list \<Rightarrow> real \<Rightarrow> (real list \<times> real) option"
where
  "batch_loop m X y i gradW gradB =
     (if i < length X
      then (case predictProba m (X ! i) of
              None \<Rightarrow> None
            | Some p \<Rightarrow>
                if i < length y
                then (let err = p - y ! i in
                      case accumulate_row err (X ! i) (length (weights m)) 0 gradW of
                        None \<Rightarrow> None
                      | Some gradW' \<Rightarrow> batch_loop m X y (Suc i) gradW' (gradB + err))
                else None)
      else Some (gradW, gradB))"
  by pat_completeness auto
termination
  by (relation "measure (\<lambda>(m, X, y, i, gradW, gradB). length X - i)") auto

declare batch_loop.simps [simp del]

text \<open>
  One pass of the epoch loop. With no example, \<open>learningRate / n\<close> is a division by
  zero (an infinity or \<open>NaN\<close>) and its product with the zero gradient is \<open>NaN\<close>.
\<close>

definition epoch_step :: "real \<Rightarrow> real list list \<Rightarrow> real list \<Rightarrow> model \<Rightarrow> model option" where
  "epoch_step learningRate X y m =
     (let n = length X in
      case batch_loop m X y 0 (replicate (length (weights m)) 0) 0 of
        None \<Rightarrow> None
      | Some (gradW, gradB) \<Rightarrow>
          if n = 0 then None
          else Some \<lparr>weights = map (\<lambda>j. weights m ! j - (learningRate / real n) * gradW ! j)
                                 [0..<length (weights m)],
                     bias = bias m - (learningRate / real n) * gradB\<rparr>)"

fun train :: "model \<Rightarrow> real list list \<Rightarrow> real list \<Rightarrow> real \<Rightarrow> nat \<Rightarrow> model option" where
  "train m X y learningRate 0 = Some m"
| "train m X y learningRate (Suc epochs) =
     (case epoch_step learningRate X y m of
        None \<Rightarrow> None
      | Some m' \<Rightarrow> train m' X y learningRate epochs)"

text \<open>
  The trainer as the specification words it, for comparison with \<open>train\<close>: the score of
  the model, the prediction error of an example, and one batch update from the sums over
  all \<open>N\<close> examples.
\<close>

definition spec_score :: "model \<Rightarrow> real list \<Rightarrow> real" where
  "spec_score m x =
     sigmoid (bias m + sum_list (map (\<lambda>j. weights m ! j * x ! j) [0..<length (weights m)]))"

definition spec_error :: "model \<Rightarrow> real list list \<Rightarrow> real list \<Rightarrow> nat \<Rightarrow> real" where
  "spec_error m X y i = spec_score m (X ! i) - y ! i"

definition spec_batch_update :: "real \<Rightarrow> real list list \<Rightarrow> real list \<Rightarrow> model \<Rightarrow> model" where
  "spec_batch_update learningRate X y m =
     \<lparr>weights = map (\<lambda>j. weights m ! j - learningRate / real (length X) *
                        sum_list (map (\<lambda>i. spec_error m X y i * X ! i ! j) [0..<length X]))
                  [0..<length (weights m)],
      bias = bias m - learningRate / real (length X) *
                        sum_list (map (\<lambda>i. spec_error m X y i) [0..<length X])\<rparr>"

subsection \<open>Persistence\<close>

text \<open>
  The value that \<open>JSON.parse\<close> returns. A file is modelled by what \<open>loadModel\<close> can
  observe of it: it does not exist, or \<open>JSON.parse\<close> throws on its text, or
  \<open>JSON.parse\<close> returns a value. \<open>JSON.stringify\<close> followed by \<open>JSON.parse\<close>
  gives back a tree of numbers, strings, arrays and objects as it was, so the file that
  \<open>saveModel\<close> writes is the parsed payload. The file system itself is taken to work.
\<close>

datatype json = JNull | JBool bool | JNum real | JStr string | JArr "json list"
  | JObj "(string \<times> json) list"

datatype stored = NoFile | Unparsable | Parsed json

datatype error = SyntaxError | TypeError

text \<open>
  A property read \<open>data.k\<close>, for a name \<open>k\<close> that no array or string has of its own
  (\<open>weights\<close>, \<open>bias\<close>): it throws on \<open>null\<close>, is \<open>undefined\<close> on every other
  value than an object, and in an object the last of several equal keys counts.
\<close>

fun getProp :: "json \<Rightarrow> string \<Rightarrow> error + json option" where
  "getProp JNull k = Inl TypeError"
| "getProp (JObj kvs) k = Inr (map_of (rev kvs) k)"
| "getProp v k = Inr None"

fun numbers :: "json list \<Rightarrow> real list option" where
  "numbers [] = Some []"
| "numbers (JNum r # vs) = map_option ((#) r) (numbers vs)"
| "numbers (v # vs) = None"

text \<open>
  What a call of \<open>loadModel\<close> does: \<open>Absent\<close> is \<open>return false\<close> with the model
  untouched, \<open>Loaded m'\<close> is \<open>return true\<close> with the stored weights and bias in the
  model. The source does not look at the entries of the stored array:
  \<open>LoadedUnchecked\<close> is \<open>return true\<close> with an array in the model of which some entry
  is not a number.
\<close>

datatype load_result = Absent | Loaded model | LoadedUnchecked "json list" real

definition loadModel :: "model \<Rightarrow> stored \<Rightarrow> error + load_result" where
  "loadModel modelInstance file =
     (case file of
        NoFile \<Rightarrow> Inr Absent
      | Unparsable \<Rightarrow> Inl SyntaxError
      | Parsed data \<Rightarrow>
          (case getProp data ''weights'' of
             Inl e \<Rightarrow> Inl e
           | Inr (Some (JArr ws)) \<Rightarrow>
               (case getProp data ''bias'' of
                  Inl e \<Rightarrow> Inl e
                | Inr (Some (JNum b)) \<Rightarrow>
                    if length ws \<noteq> length (weights modelInstance) then Inr Absent
                    else (case numbers ws of
                            Some w \<Rightarrow> Inr (Loaded \<lparr>weights = w, bias = b\<rparr>)
                          | None \<Rightarrow> Inr (LoadedUnchecked ws b))
                | Inr _ \<Rightarrow> Inr Absent)
           | Inr _ \<Rightarrow> Inr Absent))"

definition payload :: "model \<Rightarrow> json" where
  "payload modelInstance =
     JObj [(''weights'', JArr (map JNum (weights modelInstance))),
           (''bias'', JNum (bias modelInstance)),
           (''featureOrder'',
              JObj [(''CATEGORY_VALUES'', JArr (map JStr CATEGORY_VALUES)),
                    (''LOCATION_VALUES'', JArr (map JStr LOCATION_VALUES)),
                    (''funding'', JStr ''logNormalize''),
                    (''audienceLength'', JStr ''0..1 by /200 cap'')])]"

definition saveModel :: "model \<Rightarrow> stored" where
  "saveModel modelInstance = Parsed (payload modelInstance)"

subsection \<open>Public API\<close>

text \<open>The object that a caller passes: the fields of a signal and, possibly, \<open>location\<close>.\<close>

record idea = signal +
  location :: "string option"

text \<open>The left operand of \<open>||\<close> counts when it is a non-empty string.\<close>

definition truthy :: "string option \<Rightarrow> bool" where
  "truthy v = (case v of None \<Rightarrow> False | Some s \<Rightarrow> s \<noteq> [])"

definition normalizeInput :: "idea \<Rightarrow> signal" where
  "normalizeInput i =
     \<lparr>category = category i,
      requiredFunding = requiredFunding i,
      targetAudience = targetAudience i,
      authorLocation =
        (if truthy (authorLocation i) then authorLocation i
         else if truthy (location i) then location i
         else Some ''unknown'')\<rparr>"

text \<open>
  \<open>predictSuccessRate\<close> is \<open>async\<close>; the model gives the value its promise resolves to.
  The module-level \<open>model\<close> is a parameter.
\<close>

definition predictSuccessRate :: "model \<Rightarrow> idea \<Rightarrow> real option" where
  "predictSuccessRate m ideaOrInput =
     (let inp = normalizeInput ideaOrInput;
          x = buildFeatures inp;
          prob = predictProba m x
      in map_option clamp01 prob)"

text \<open>
  An entry of the explanation. \<open>weight\<close> is \<open>None\<close> when \<open>w[index]\<close> is \<open>undefined\<close>;
  \<open>val\<close> is \<open>None\<close> for an entry without the key \<open>value\<close>, and \<open>Some None\<close> when
  the value is \<open>undefined\<close>.
\<close>

record contribution =
  feature :: string
  weight :: "real option"
  val :: "real option option"

record contributions =
  expl_bias :: real
  terms :: "contribution list"

definition perFeatureContributions :: "real list \<Rightarrow> real list \<Rightarrow> real \<Rightarrow> contributions" where
  "perFeatureContributions x w b =
     (let catParts = concat (map (\<lambda>i.
            if nth_opt x i = Some 1
            then [\<lparr>feature = ''category:'' @ CATEGORY_VALUES ! i, weight = nth_opt w i, val = None\<rparr>]
            else []) [0..<length CATEGORY_VALUES]);
          fundingIdx = length CATEGORY_VALUES;
          audienceIdx = fundingIdx + 1;
          scalarParts =
            [\<lparr>feature = ''requiredFunding(log-normalized)'', weight = nth_opt w fundingIdx,
              val = Some (nth_opt x fundingIdx)\<rparr>,
             \<lparr>feature = ''targetAudienceLength(norm)'', weight = nth_opt w audienceIdx,
              val = Some (nth_opt x audienceIdx)\<rparr>];
          locParts = concat (map (\<lambda>i.
            if nth_opt x (audienceIdx + 1 + i) = Some 1
            then [\<lparr>feature = ''authorLocation:'' @ LOCATION_VALUES ! i,
                   weight = nth_opt w (audienceIdx + 1 + i), val = None\<rparr>]
            else []) [0..<length LOCATION_VALUES])
      in \<lparr>expl_bias = b, terms = catParts @ scalarParts @ locParts\<rparr>)"

text \<open>
  The fields \<open>modelPath\<close> and \<open>csvPath\<close> of the result, two constant strings made from
  the working directory of the process, are left out.
\<close>

record explanation =
  probability :: "real option"
  features :: contributions

definition getSuccessRateExplanation :: "model \<Rightarrow> idea \<Rightarrow> explanation" where
  "getSuccessRateExplanation m ideaOrInput =
     (let inp = normalizeInput ideaOrInput;
          x = buildFeatures inp;
          contribs = perFeatureContributions x (weights m) (bias m)
      in \<lparr>probability = map_option clamp01 (predictProba m x), features = contribs\<rparr>)"

section \<open>Properties of the feature encoder\<close>

lemma indexOf_neg: "indexOf xs v < 0 \<longleftrightarrow> v \<notin> set xs"
  by (induction xs) (auto simp: Let_def)

lemma indexOf_nth: "distinct xs \<Longrightarrow> i < length xs \<Longrightarrow> indexOf xs (xs ! i) = int i"
proof (induction xs arbitrary: i)
  case Nil
  then show ?case by simp
next
  case (Cons a xs)
  then show ?case by (cases i) (auto simp: Let_def indexOf_neg)
qed

lemma length_oneHot: "length (oneHot v vals) = length vals"
  by (simp add: oneHot_def Let_def)

lemma map_upt_unit:
  "i < n \<Longrightarrow> map (\<lambda>j. if j = i then 1 else (0::real)) [0..<n] = (replicate n 0)[i := 1]"
  by (rule nth_equalityI) auto

lemma oneHot_match:
  assumes "distinct vals" "i < length vals" "toLowerCase (orEmpty v) = vals ! i"
  shows "oneHot v vals = (replicate (length vals) 0)[i := 1]"
proof -
  have "indexOf vals (toLowerCase (orEmpty v)) = int i"
    using assms by (simp add: indexOf_nth)
  then show ?thesis
    using assms(2) by (simp add: oneHot_def map_upt_unit)
qed

lemma oneHot_nomatch:
  assumes "toLowerCase (orEmpty v) \<notin> set vals" "vals \<noteq> []"
  shows "oneHot v vals = (replicate (length vals) 0)[length vals - 1 := 1]"
proof -
  have neg: "indexOf vals (toLowerCase (orEmpty v)) < 0"
    using assms by (simp add: indexOf_neg)
  have *: "int (length vals) - 1 = int (length vals - 1)"
    using assms(2) by (cases vals) auto
  have "length vals - 1 < length vals" using assms(2) by (cases vals) auto
  from map_upt_unit[OF this] neg show ?thesis
    by (simp add: oneHot_def * del: of_nat_diff)
qed

lemma distinct_CATEGORY: "distinct CATEGORY_VALUES"
  by (simp add: CATEGORY_VALUES_def)
lemma distinct_LOCATION: "distinct LOCATION_VALUES"
  by (simp add: LOCATION_VALUES_def)

lemma length_CATEGORY: "length CATEGORY_VALUES = 6"
  by (simp add: CATEGORY_VALUES_def)
lemma length_LOCATION: "length LOCATION_VALUES = 6"
  by (simp add: LOCATION_VALUES_def)

lemma last_CATEGORY: "last CATEGORY_VALUES = ''other''"
  by (simp add: CATEGORY_VALUES_def)
lemma last_LOCATION: "last LOCATION_VALUES = ''unknown''"
  by (simp add: LOCATION_VALUES_def)

lemma lower_other: "toLowerCase ''other'' = ''other''"
  by (simp add: toLowerCase_def toLowerChar_def)
lemma lower_unknown: "toLowerCase ''unknown'' = ''unknown''"
  by (simp add: toLowerCase_def toLowerChar_def)
lemma lower_empty: "toLowerCase [] = []"
  by (simp add: toLowerCase_def)

lemma empty_notin_CATEGORY: "[] \<notin> set CATEGORY_VALUES"
  by (simp add: CATEGORY_VALUES_def)
lemma empty_notin_LOCATION: "[] \<notin> set LOCATION_VALUES"
  by (simp add: LOCATION_VALUES_def)

lemma oneHot_other: "oneHot (Some ''other'') CATEGORY_VALUES = (replicate 6 0)[5 := 1]"
  using oneHot_match[OF distinct_CATEGORY, of 5 "Some ''other''"]
  by (simp add: length_CATEGORY orEmpty_def lower_other) (simp add: CATEGORY_VALUES_def)

lemma oneHot_unknown: "oneHot (Some ''unknown'') LOCATION_VALUES = (replicate 6 0)[5 := 1]"
  using oneHot_match[OF distinct_LOCATION, of 5 "Some ''unknown''"]
  by (simp add: length_LOCATION orEmpty_def lower_unknown) (simp add: LOCATION_VALUES_def)

lemma categoryBlock_buildFeatures:
  "categoryBlock (buildFeatures inp) = oneHot (category inp) CATEGORY_VALUES"
  by (simp add: categoryBlock_def buildFeatures_def Let_def length_oneHot)

lemma locationBlock_buildFeatures:
  "locationBlock (buildFeatures inp) = oneHot (authorLocation inp) LOCATION_VALUES"
  by (simp add: locationBlock_def buildFeatures_def Let_def length_oneHot)

lemma length_buildFeatures: "length (buildFeatures inp) = featureDim"
  by (simp add: buildFeatures_def Let_def length_oneHot featureDim_def)

text \<open>
  Claim C2. The encoder is total on category and location strings. The lower-cased
  input is compared with the entries of the closed set: when it equals the entry at
  index \<open>i\<close>, the block is the unit vector of \<open>i\<close>; when it equals no entry, or the
  field is absent, the block is the encoding of the last entry of the set, which is
  \<open>other\<close> for categories and \<open>unknown\<close> for locations. The two blocks of
  \<open>buildFeatures\<close> are these encodings, and the vector always has \<open>featureDim\<close>
  entries.
\<close>

theorem encoder_total_with_fallback:
  "(i < length CATEGORY_VALUES \<and> toLowerCase c = CATEGORY_VALUES ! i \<longrightarrow>
       oneHot (Some c) CATEGORY_VALUES = (replicate (length CATEGORY_VALUES) 0)[i := 1])
   \<and> (toLowerCase c \<notin> set CATEGORY_VALUES \<longrightarrow>
       oneHot (Some c) CATEGORY_VALUES = oneHot (Some (last CATEGORY_VALUES)) CATEGORY_VALUES)
   \<and> oneHot None CATEGORY_VALUES = oneHot (Some (last CATEGORY_VALUES)) CATEGORY_VALUES
   \<and> last CATEGORY_VALUES = ''other''
   \<and> (j < length LOCATION_VALUES \<and> toLowerCase l = LOCATION_VALUES ! j \<longrightarrow>
       oneHot (Some l) LOCATION_VALUES = (replicate (length LOCATION_VALUES) 0)[j := 1])
   \<and> (toLowerCase l \<notin> set LOCATION_VALUES \<longrightarrow>
       oneHot (Some l) LOCATION_VALUES = oneHot (Some (last LOCATION_VALUES)) LOCATION_VALUES)
   \<and> oneHot None LOCATION_VALUES = oneHot (Some (last LOCATION_VALUES)) LOCATION_VALUES
   \<and> last LOCATION_VALUES = ''unknown''
   \<and> categoryBlock (buildFeatures inp) = oneHot (category inp) CATEGORY_VALUES
   \<and> locationBlock (buildFeatures inp) = oneHot (authorLocation inp) LOCATION_VALUES
   \<and> length (buildFeatures inp) = featureDim"
proof -
  have ne: "CATEGORY_VALUES \<noteq> []" "LOCATION_VALUES \<noteq> []"
    by (simp_all add: CATEGORY_VALUES_def LOCATION_VALUES_def)
  have c1: "i < length CATEGORY_VALUES \<and> toLowerCase c = CATEGORY_VALUES ! i \<longrightarrow>
       oneHot (Some c) CATEGORY_VALUES = (replicate (length CATEGORY_VALUES) 0)[i := 1]"
    using oneHot_match[OF distinct_CATEGORY, of i "Some c"] by (simp add: orEmpty_def)
  have c2: "toLowerCase c \<notin> set CATEGORY_VALUES \<longrightarrow>
       oneHot (Some c) CATEGORY_VALUES = oneHot (Some (last CATEGORY_VALUES)) CATEGORY_VALUES"
    using oneHot_nomatch[OF _ ne(1), of "Some c"]
    by (simp add: orEmpty_def last_CATEGORY oneHot_other length_CATEGORY)
  have c3: "oneHot None CATEGORY_VALUES = oneHot (Some (last CATEGORY_VALUES)) CATEGORY_VALUES"
    using oneHot_nomatch[OF _ ne(1), of None] empty_notin_CATEGORY
    by (simp add: orEmpty_def lower_empty last_CATEGORY oneHot_other length_CATEGORY)
  have l1: "j < length LOCATION_VALUES \<and> toLowerCase l = LOCATION_VALUES ! j \<longrightarrow>
       oneHot (Some l) LOCATION_VALUES = (replicate (length LOCATION_VALUES) 0)[j := 1]"
    using oneHot_match[OF distinct_LOCATION, of j "Some l"] by (simp add: orEmpty_def)
  have l2: "toLowerCase l \<notin> set LOCATION_VALUES \<longrightarrow>
       oneHot (Some l) LOCATION_VALUES = oneHot (Some (last LOCATION_VALUES)) LOCATION_VALUES"
    using oneHot_nomatch[OF _ ne(2), of "Some l"]
    by (simp add: orEmpty_def last_LOCATION oneHot_unknown length_LOCATION)
  have l3: "oneHot None LOCATION_VALUES = oneHot (Some (last LOCATION_VALUES)) LOCATION_VALUES"
    using oneHot_nomatch[OF _ ne(2), of None] empty_notin_LOCATION
    by (simp add: orEmpty_def lower_empty last_LOCATION oneHot_unknown length_LOCATION)
  show ?thesis
    using c1 c2 c3 l1 l2 l3
    by (simp only: last_CATEGORY last_LOCATION categoryBlock_buildFeatures
        locationBlock_buildFeatures length_buildFeatures simp_thms)
qed

theorem encoder_total_with_fallback_witness:
  "3 < length CATEGORY_VALUES \<and> toLowerCase ''TECHnology'' = CATEGORY_VALUES ! 3
   \<and> oneHot (Some ''TECHnology'') CATEGORY_VALUES = [0, 0, 0, 1, 0, 0]
   \<and> toLowerCase ''Mars Base'' \<notin> set CATEGORY_VALUES
   \<and> oneHot (Some ''Mars Base'') CATEGORY_VALUES = oneHot (Some ''other'') CATEGORY_VALUES
   \<and> 3 < length LOCATION_VALUES \<and> toLowerCase ''Coastal'' = LOCATION_VALUES ! 3
   \<and> oneHot (Some ''Coastal'') LOCATION_VALUES = [0, 0, 0, 1, 0, 0]
   \<and> toLowerCase ''Mars Base'' \<notin> set LOCATION_VALUES
   \<and> oneHot (Some ''Mars Base'') LOCATION_VALUES = oneHot (Some ''unknown'') LOCATION_VALUES"
proof -
  have h1: "3 < length CATEGORY_VALUES" "3 < length LOCATION_VALUES"
    by (simp_all add: CATEGORY_VALUES_def LOCATION_VALUES_def)
  have h2: "toLowerCase ''TECHnology'' = CATEGORY_VALUES ! 3"
    by code_simp
  have h3: "toLowerCase ''Mars Base'' \<notin> set CATEGORY_VALUES"
    "toLowerCase ''Mars Base'' \<notin> set LOCATION_VALUES"
    by code_simp+
  have h4: "toLowerCase ''Coastal'' = LOCATION_VALUES ! 3"
    by code_simp
  have r6: "(replicate 6 (0::real))[3 := 1] = [0, 0, 0, 1, 0, 0]"
    by (simp add: numeral_eq_Suc)
  note m = encoder_total_with_fallback[of 3 "''TECHnology''" 3 "''Coastal''"]
  note n = encoder_total_with_fallback[of 0 "''Mars Base''" 0 "''Mars Base''"]
  from m h1 h2 have a: "oneHot (Some ''TECHnology'') CATEGORY_VALUES = [0, 0, 0, 1, 0, 0]"
    by (simp add: length_CATEGORY r6)
  from m h1 h4 have b: "oneHot (Some ''Coastal'') LOCATION_VALUES = [0, 0, 0, 1, 0, 0]"
    by (simp add: length_LOCATION r6)
  from n h3 have c: "oneHot (Some ''Mars Base'') CATEGORY_VALUES = oneHot (Some ''other'') CATEGORY_VALUES"
    "oneHot (Some ''Mars Base'') LOCATION_VALUES = oneHot (Some ''unknown'') LOCATION_VALUES"
    by simp_all
  from h1 h2 h3 h4 a b c show ?thesis by simp
qed

lemma indexOf_less: "indexOf xs v < int (length xs)"
  by (induction xs) (auto simp: Let_def)

lemma oneHot_unit:
  assumes "vals \<noteq> []"
  shows "\<exists>k < length vals. oneHot v vals = (replicate (length vals) 0)[k := 1]"
proof (cases "indexOf vals (toLowerCase (orEmpty v)) \<ge> 0")
  case True
  define k where "k = nat (indexOf vals (toLowerCase (orEmpty v)))"
  have k: "k < length vals" "indexOf vals (toLowerCase (orEmpty v)) = int k"
    using True indexOf_less[of vals "toLowerCase (orEmpty v)"] by (simp_all add: k_def)
  then have "oneHot v vals = (replicate (length vals) 0)[k := 1]"
    by (simp add: oneHot_def map_upt_unit)
  with k(1) show ?thesis by blast
next
  case False
  then have "toLowerCase (orEmpty v) \<notin> set vals"
    using indexOf_neg[of vals "toLowerCase (orEmpty v)"] by simp
  from oneHot_nomatch[OF this assms] assms show ?thesis
    by (intro exI[of _ "length vals - 1"]) (cases vals, auto)
qed

lemma count_unit: "k < n \<Longrightarrow> count_list ((replicate n (0::real))[k := 1]) 1 = 1"
proof (induction n arbitrary: k)
  case 0
  then show ?case by simp
next
  case (Suc n)
  then show ?case by (cases k) (auto simp: count_list_0_iff)
qed

lemma set_unit: "set ((replicate n (0::real))[k := 1]) \<subseteq> {0, 1}"
  using set_update_subset_insert[of "replicate n (0::real)" k 1] by auto

lemma oneHot_count: "vals \<noteq> [] \<Longrightarrow> count_list (oneHot v vals) 1 = 1"
  using oneHot_unit[of vals v] by (auto simp: count_unit)

lemma oneHot_set: "set (oneHot v vals) \<subseteq> {0, 1}"
  by (auto simp: oneHot_def Let_def)

lemma ln_denominator_pos: "0 < ln (1 + 1000000 :: real)"
  by simp

lemma logNormalize_nonneg: "0 \<le> logNormalize x"
  unfolding logNormalize_def by (intro divide_nonneg_pos ln_ge_zero) simp_all

lemma logNormalize_le_1:
  assumes "(case x of None \<Rightarrow> 0 | Some r \<Rightarrow> r) \<le> 1000000"
  shows "logNormalize x \<le> 1"
proof -
  define r where "r = (case x of None \<Rightarrow> (0::real) | Some r \<Rightarrow> r)"
  have "1 + max 0 r \<le> 1 + 1000000"
    using assms by (simp add: r_def)
  then have "ln (1 + max 0 r) \<le> ln (1 + 1000000)"
    by (subst ln_le_cancel_iff) simp_all
  then show ?thesis
    unfolding logNormalize_def r_def [symmetric]
    using ln_denominator_pos by (simp add: divide_le_eq)
qed

lemma nth_buildFeatures:
  "k < featureDim \<Longrightarrow> buildFeatures inp ! k =
     (if k < 6 then oneHot (category inp) CATEGORY_VALUES ! k
      else if k = 6 then logNormalize (requiredFunding inp)
      else if k = 7 then min 1 (real (length (orEmpty (targetAudience inp))) / 200)
      else oneHot (authorLocation inp) LOCATION_VALUES ! (k - 8))"
  by (auto simp: buildFeatures_def Let_def nth_append length_oneHot length_CATEGORY
      length_LOCATION featureDim_def nth_Cons')

lemma oneHot_nth_bounds:
  "k < length vals \<Longrightarrow> 0 \<le> oneHot v vals ! k \<and> oneHot v vals ! k \<le> 1"
  by (simp add: oneHot_def Let_def)

text \<open>
  Claim C5, as amended. Each one-hot block of the encoded vector holds exactly one 1
  and otherwise 0; every entry is at least 0; every entry other than the funding
  entry is at most 1; and the funding entry is at most 1 when the required funding
  is at most 1,000,000.
\<close>

theorem features_invariant:
  "count_list (categoryBlock (buildFeatures inp)) 1 = 1
   \<and> set (categoryBlock (buildFeatures inp)) \<subseteq> {0, 1}
   \<and> count_list (locationBlock (buildFeatures inp)) 1 = 1
   \<and> set (locationBlock (buildFeatures inp)) \<subseteq> {0, 1}
   \<and> (\<forall>k < featureDim. 0 \<le> buildFeatures inp ! k)
   \<and> (\<forall>k < featureDim. k \<noteq> length CATEGORY_VALUES \<longrightarrow> buildFeatures inp ! k \<le> 1)
   \<and> ((case requiredFunding inp of None \<Rightarrow> 0 | Some r \<Rightarrow> r) \<le> 1000000
        \<longrightarrow> buildFeatures inp ! length CATEGORY_VALUES \<le> 1)"
proof -
  have ne: "CATEGORY_VALUES \<noteq> []" "LOCATION_VALUES \<noteq> []"
    by (simp_all add: CATEGORY_VALUES_def LOCATION_VALUES_def)
  have blocks: "count_list (categoryBlock (buildFeatures inp)) 1 = 1"
    "set (categoryBlock (buildFeatures inp)) \<subseteq> {0, 1}"
    "count_list (locationBlock (buildFeatures inp)) 1 = 1"
    "set (locationBlock (buildFeatures inp)) \<subseteq> {0, 1}"
    by (simp_all add: categoryBlock_buildFeatures locationBlock_buildFeatures
        oneHot_count ne oneHot_set)
  have lower: "\<forall>k < featureDim. 0 \<le> buildFeatures inp ! k"
  proof (intro allI impI)
    fix k assume k: "k < featureDim"
    then have "k - 8 < length LOCATION_VALUES" "k < 6 \<longrightarrow> k < length CATEGORY_VALUES"
      by (simp_all add: featureDim_def length_LOCATION length_CATEGORY)
    then show "0 \<le> buildFeatures inp ! k"
      using k oneHot_nth_bounds[of k CATEGORY_VALUES] oneHot_nth_bounds[of "k - 8" LOCATION_VALUES]
      by (simp add: nth_buildFeatures logNormalize_nonneg)
  qed
  have upper: "\<forall>k < featureDim. k \<noteq> length CATEGORY_VALUES \<longrightarrow> buildFeatures inp ! k \<le> 1"
  proof (intro allI impI)
    fix k assume k: "k < featureDim" "k \<noteq> length CATEGORY_VALUES"
    then have "k - 8 < length LOCATION_VALUES" "k < 6 \<longrightarrow> k < length CATEGORY_VALUES"
      by (simp_all add: featureDim_def length_LOCATION length_CATEGORY)
    then show "buildFeatures inp ! k \<le> 1"
      using k oneHot_nth_bounds[of k CATEGORY_VALUES] oneHot_nth_bounds[of "k - 8" LOCATION_VALUES]
      by (simp add: nth_buildFeatures length_CATEGORY)
  qed
  have funding: "(case requiredFunding inp of None \<Rightarrow> 0 | Some r \<Rightarrow> r) \<le> 1000000
        \<longrightarrow> buildFeatures inp ! length CATEGORY_VALUES \<le> 1"
    by (simp add: nth_buildFeatures length_CATEGORY featureDim_def length_LOCATION
        logNormalize_le_1)
  from blocks lower upper funding show ?thesis by blast
qed

theorem features_invariant_witness:
  "7 < featureDim \<and> 7 \<noteq> length CATEGORY_VALUES
   \<and> 0 \<le> buildFeatures \<lparr>category = Some ''technology'', requiredFunding = Some 250000,
     targetAudience = Some [], authorLocation = Some ''urban''\<rparr> ! 7
   \<and> buildFeatures \<lparr>category = Some ''technology'', requiredFunding = Some 250000,
     targetAudience = Some [], authorLocation = Some ''urban''\<rparr> ! 7 \<le> 1
   \<and> (250000 :: real) \<le> 1000000
   \<and> buildFeatures \<lparr>category = Some ''technology'', requiredFunding = Some 250000,
     targetAudience = Some [], authorLocation = Some ''urban''\<rparr> ! length CATEGORY_VALUES \<le> 1"
  using features_invariant[of "\<lparr>category = Some ''technology'', requiredFunding = Some 250000,
     targetAudience = Some [], authorLocation = Some ''urban''\<rparr>"]
  by (simp add: featureDim_def length_CATEGORY length_LOCATION)

text \<open>
  The claim as stated (every entry in \<open>[0,1]\<close>) fails: a required funding of
  2,000,000 gives a funding entry above 1.
\<close>

theorem features_unit_interval_counterexample:
  "1 < buildFeatures \<lparr>category = Some ''technology'', requiredFunding = Some 2000000,
     targetAudience = Some [], authorLocation = Some ''urban''\<rparr> ! 6"
proof -
  have "ln (1 + 1000000 :: real) < ln (1 + max 0 2000000)"
    by (subst ln_less_cancel_iff) simp_all
  then have "1 < logNormalize (Some 2000000)"
    unfolding logNormalize_def using ln_denominator_pos by (simp add: less_divide_eq)
  then show ?thesis
    by (simp add: nth_buildFeatures featureDim_def length_CATEGORY length_LOCATION)
qed

text \<open>
  Claim C8. The audience entry of the encoded vector is \<open>min(1, length / 200)\<close>: it
  is \<open>length / 200\<close> up to 200 characters and 1 from 200 characters on, it lies in
  \<open>[0,1]\<close>, and it is 0 when \<open>targetAudience\<close> is absent. \<open>buildFeatures\<close> has no
  failing branch.
\<close>

theorem audience_feature:
  "(targetAudience inp = Some t \<longrightarrow>
      buildFeatures inp ! (length CATEGORY_VALUES + 1) = min 1 (real (length t) / 200)
      \<and> (length t \<le> 200 \<longrightarrow> buildFeatures inp ! (length CATEGORY_VALUES + 1) = real (length t) / 200)
      \<and> (200 \<le> length t \<longrightarrow> buildFeatures inp ! (length CATEGORY_VALUES + 1) = 1))
   \<and> (targetAudience inp = None \<longrightarrow> buildFeatures inp ! (length CATEGORY_VALUES + 1) = 0)
   \<and> 0 \<le> buildFeatures inp ! (length CATEGORY_VALUES + 1)
   \<and> buildFeatures inp ! (length CATEGORY_VALUES + 1) \<le> 1"
  by (auto simp: nth_buildFeatures featureDim_def length_CATEGORY length_LOCATION orEmpty_def
      min_def)

text \<open>
  Claim C9. The funding feature \<open>log(1 + max(0, funding)) / log(1 + 1000000)\<close> is
  monotonically non-decreasing in the required funding, for funding from 0 on.
\<close>

theorem funding_feature_monotone:
  "0 \<le> a \<Longrightarrow> a \<le> b \<Longrightarrow>
     logNormalize (Some a) \<le> logNormalize (Some b)
     \<and> logNormalize (Some a) = ln (1 + max 0 a) / ln (1 + 1000000)
     \<and> buildFeatures (inp\<lparr>requiredFunding := Some a\<rparr>) ! length CATEGORY_VALUES
         \<le> buildFeatures (inp\<lparr>requiredFunding := Some b\<rparr>) ! length CATEGORY_VALUES"
proof -
  assume ab: "0 \<le> a" "a \<le> b"
  then have "ln (1 + max 0 a) \<le> ln (1 + max 0 b)"
    by (subst ln_le_cancel_iff) simp_all
  then have "logNormalize (Some a) \<le> logNormalize (Some b)"
    unfolding logNormalize_def using ln_denominator_pos by (simp add: divide_right_mono)
  then show ?thesis
    by (simp add: nth_buildFeatures featureDim_def length_CATEGORY length_LOCATION)
      (simp add: logNormalize_def)
qed

theorem audience_feature_witness:
  "targetAudience \<lparr>category = None, requiredFunding = None,
      targetAudience = Some ''farmers'', authorLocation = None\<rparr> = Some ''farmers''
   \<and> length ''farmers'' \<le> 200
   \<and> buildFeatures \<lparr>category = None, requiredFunding = None,
      targetAudience = Some ''farmers'', authorLocation = None\<rparr> ! (length CATEGORY_VALUES + 1)
       = 7 / 200
   \<and> 200 \<le> length (replicate 250 CHR ''a'')
   \<and> buildFeatures \<lparr>category = None, requiredFunding = None,
      targetAudience = Some (replicate 250 CHR ''a''), authorLocation = None\<rparr>
       ! (length CATEGORY_VALUES + 1) = 1
   \<and> targetAudience \<lparr>category = None, requiredFunding = None,
      targetAudience = None, authorLocation = None\<rparr> = None
   \<and> buildFeatures \<lparr>category = None, requiredFunding = None,
      targetAudience = None, authorLocation = None\<rparr> ! (length CATEGORY_VALUES + 1) = 0"
  using audience_feature[of "\<lparr>category = None, requiredFunding = None,
      targetAudience = Some ''farmers'', authorLocation = None\<rparr>" "''farmers''"]
    audience_feature[of "\<lparr>category = None, requiredFunding = None,
      targetAudience = Some (replicate 250 CHR ''a''), authorLocation = None\<rparr>"
      "replicate 250 CHR ''a''"]
    audience_feature[of "\<lparr>category = None, requiredFunding = None,
      targetAudience = None, authorLocation = None\<rparr>" "[]"]
  by simp

theorem funding_feature_monotone_witness:
  "(0::real) \<le> 0 \<and> (0::real) \<le> 250000
   \<and> logNormalize (Some 0) \<le> logNormalize (Some 250000)"
proof -
  have h: "(0::real) \<le> 0" "(0::real) \<le> 250000"
    by simp_all
  from funding_feature_monotone[OF h, of "\<lparr>category = None, requiredFunding = None,
      targetAudience = None, authorLocation = None\<rparr>"] h
  show ?thesis by blast
qed

section \<open>Properties of the scoring service\<close>

lemma predict_loop_sum:
  "length w \<le> length x \<Longrightarrow> i \<le> length w \<Longrightarrow>
     predict_loop w x i z = Some (z + sum_list (map (\<lambda>j. w ! j * x ! j) [i..<length w]))"
proof (induction w x i z rule: predict_loop.induct)
  case (1 w x i z)
  show ?case
  proof (cases "i < length w")
    case True
    with "1.prems" have ix: "i < length x" by simp
    have "predict_loop w x i z = predict_loop w x (Suc i) (z + w ! i * x ! i)"
      using True ix by (subst predict_loop.simps) simp
    also have "\<dots> = Some (z + w ! i * x ! i + sum_list (map (\<lambda>j. w ! j * x ! j) [Suc i..<length w]))"
      using "1.IH"[OF True ix] "1.prems" True by simp
    finally show ?thesis
      using True by (simp add: upt_conv_Cons add.assoc)
  next
    case False
    with "1.prems" have "i = length w" by simp
    then show ?thesis by (subst predict_loop.simps) simp
  qed
qed

lemma predict_loop_short:
  "i \<le> length x \<Longrightarrow> length x < length w \<Longrightarrow> predict_loop w x i z = None"
proof (induction w x i z rule: predict_loop.induct)
  case (1 w x i z)
  show ?case
  proof (cases "i < length x")
    case True
    then have "predict_loop w x i z = predict_loop w x (Suc i) (z + w ! i * x ! i)"
      using "1.prems" by (subst predict_loop.simps) simp
    then show ?thesis using "1.IH"[of] True "1.prems" by simp
  next
    case False
    then show ?thesis using "1.prems" by (subst predict_loop.simps) simp
  qed
qed

lemma predictProba_spec:
  "length (weights m) \<le> length x \<Longrightarrow> predictProba m x = Some (spec_score m x)"
  by (simp add: predictProba_def spec_score_def predict_loop_sum)

lemma sigmoid_bounds: "0 < sigmoid z" "sigmoid z < 1"
proof -
  have "0 < exp (- z)" by simp
  then show "0 < sigmoid z" "sigmoid z < 1"
    unfolding sigmoid_def by (simp_all add: add_pos_pos)
qed

lemma clamp01_bounds: "0 \<le> clamp01 v" "clamp01 v \<le> 1"
  by (simp_all add: clamp01_def)

lemma clamp01_sigmoid: "clamp01 (sigmoid z) = sigmoid z"
  using sigmoid_bounds[of z] by (simp add: clamp01_def)

text \<open>
  Claim C1. For a model of the module's dimension and every idea, also a degenerate
  one, \<open>predictSuccessRate\<close> returns a number: the sigmoid of the bias plus the dot
  product of weights and features, clamped, which lies in \<open>[0,1]\<close>.
\<close>

theorem predictSuccessRate_probability:
  assumes "length (weights m) = featureDim"
  shows "predictSuccessRate m i
           = Some (clamp01 (spec_score m (buildFeatures (normalizeInput i))))
         \<and> 0 \<le> clamp01 (spec_score m (buildFeatures (normalizeInput i)))
         \<and> clamp01 (spec_score m (buildFeatures (normalizeInput i))) \<le> 1"
  using assms
  by (simp add: predictSuccessRate_def Let_def predictProba_spec length_buildFeatures
      clamp01_bounds)

text \<open>
  The model that the constructor makes has the requested dimension and scores every
  vector at one half; it serves as the concrete model below.
\<close>

lemma length_LogisticRegression: "length (weights (LogisticRegression n)) = n"
  by (simp add: LogisticRegression_def)

lemma spec_score_LogisticRegression: "spec_score (LogisticRegression n) x = 1 / 2"
proof -
  have "map (\<lambda>j. replicate n (0::real) ! j * x ! j) [0..<n] = map (\<lambda>j. 0) [0..<n]"
    by (rule map_cong) simp_all
  then have "sum_list (map (\<lambda>j. replicate n (0::real) ! j * x ! j) [0..<n]) = 0"
    by (simp only: sum_list_0)
  then show ?thesis
    by (simp add: spec_score_def LogisticRegression_def sigmoid_def)
qed

theorem predictSuccessRate_probability_witness:
  "length (weights (LogisticRegression featureDim)) = featureDim
   \<and> predictSuccessRate (LogisticRegression featureDim)
       \<lparr>category = Some [], requiredFunding = Some 0, targetAudience = Some [],
        authorLocation = None, location = None\<rparr> = Some (1 / 2)"
proof -
  have h: "length (weights (LogisticRegression featureDim)) = featureDim"
    by (rule length_LogisticRegression)
  have v: "clamp01 (1 / 2) = 1 / 2"
    by (simp add: clamp01_def)
  from predictSuccessRate_probability[OF h, of "\<lparr>category = Some [], requiredFunding = Some 0,
        targetAudience = Some [], authorLocation = None, location = None\<rparr>"]
  have "predictSuccessRate (LogisticRegression featureDim)
       \<lparr>category = Some [], requiredFunding = Some 0, targetAudience = Some [],
        authorLocation = None, location = None\<rparr> = Some (1 / 2)"
    by (simp only: spec_score_LogisticRegression v)
  with h show ?thesis by (rule conjI)
qed

text \<open>
  Claim C10. For every idea and every state of the model, the \<open>probability\<close> field
  of \<open>getSuccessRateExplanation\<close> is the value of \<open>predictSuccessRate\<close>.
\<close>

theorem explanation_probability_consistent:
  "probability (getSuccessRateExplanation m i) = predictSuccessRate m i"
  by (simp add: getSuccessRateExplanation_def predictSuccessRate_def Let_def)

section \<open>Properties of the model store\<close>

lemma numbers_JNum: "numbers (map JNum ws) = Some ws"
  by (induction ws) simp_all

lemma numbers_length: "numbers vs = Some ws \<Longrightarrow> length ws = length vs"
proof (induction vs arbitrary: ws)
  case Nil
  then show ?case by simp
next
  case (Cons v vs)
  then show ?case by (cases v) auto
qed

lemma getProp_payload_weights:
  "getProp (payload m) ''weights'' = Inr (Some (JArr (map JNum (weights m))))"
  by (simp add: payload_def)

lemma getProp_payload_bias: "getProp (payload m) ''bias'' = Inr (Some (JNum (bias m)))"
  by (simp add: payload_def)

text \<open>What \<open>loadModel\<close> rejects by returning \<open>false\<close>.\<close>

lemma loadModel_NoFile: "loadModel m NoFile = Inr Absent"
  by (simp add: loadModel_def)

lemma loadModel_weights_not_array:
  "getProp data ''weights'' = Inr w \<Longrightarrow> \<forall>ws. w \<noteq> Some (JArr ws) \<Longrightarrow>
     loadModel m (Parsed data) = Inr Absent"
  by (auto simp: loadModel_def split: option.splits json.splits)

lemma loadModel_bias_not_number:
  "getProp data ''weights'' = Inr (Some (JArr ws)) \<Longrightarrow> getProp data ''bias'' = Inr b \<Longrightarrow>
     \<forall>r. b \<noteq> Some (JNum r) \<Longrightarrow> loadModel m (Parsed data) = Inr Absent"
  by (auto simp: loadModel_def split: option.splits json.splits)

lemma loadModel_length_mismatch:
  "getProp data ''weights'' = Inr (Some (JArr ws)) \<Longrightarrow> length ws \<noteq> length (weights m) \<Longrightarrow>
     loadModel m (Parsed data) = Inr Absent"
  by (cases data) (auto simp: loadModel_def split: option.splits json.splits)

lemma loadModel_five_of_twelve:
  "loadModel (LogisticRegression 12)
     (Parsed (JObj [(''weights'', JArr [JNum 1, JNum 2, JNum 3, JNum 4, JNum 5]),
                    (''bias'', JNum 0)])) = Inr Absent"
  by (simp add: loadModel_def LogisticRegression_def)

lemma loadModel_Loaded_length:
  "loadModel m file = Inr (Loaded m') \<Longrightarrow> length (weights m') = length (weights m)"
  by (auto simp: loadModel_def numbers_length split: stored.splits sum.splits option.splits
      json.splits if_splits)

text \<open>
  Claim C3 asks that \<open>loadModel\<close> returns "absent" and never raises. The lemmas
  above confirm that for a missing file, for a stored value whose \<open>weights\<close> is not
  an array or whose \<open>bias\<close> is not a number, and for a weight vector of another
  length. It does not hold of the source for a file on which \<open>JSON.parse\<close> throws:
  the exception leaves \<open>loadModel\<close>. The same happens with a \<open>TypeError\<close> when the
  file holds \<open>null\<close>; and an array of the right length whose entries are not numbers
  is accepted.
\<close>

theorem loadModel_unparsable_throws:
  "loadModel m Unparsable = Inl SyntaxError
   \<and> loadModel m (Parsed JNull) = Inl TypeError
   \<and> loadModel (LogisticRegression 2)
         (Parsed (JObj [(''weights'', JArr [JStr ''a'', JNull]), (''bias'', JNum 0)]))
       = Inr (LoadedUnchecked [JStr ''a'', JNull] 0)"
  by (simp add: loadModel_def LogisticRegression_def)

text \<open>
  Claim C7. \<open>saveModel\<close> followed by \<open>loadModel\<close> into a model of the same
  dimension succeeds and yields the weights and the bias that were saved.
\<close>

theorem save_load_roundtrip:
  "length (weights m) = length (weights modelInstance) \<Longrightarrow>
     loadModel modelInstance (saveModel m) = Inr (Loaded m)"
  by (simp add: loadModel_def saveModel_def getProp_payload_weights getProp_payload_bias
      numbers_JNum)

theorem save_load_roundtrip_witness:
  "length (weights \<lparr>weights = [1 / 4, - 3 / 2], bias = 3 / 4\<rparr>)
     = length (weights (LogisticRegression 2))
   \<and> loadModel (LogisticRegression 2) (saveModel \<lparr>weights = [1 / 4, - 3 / 2], bias = 3 / 4\<rparr>)
     = Inr (Loaded \<lparr>weights = [1 / 4, - 3 / 2], bias = 3 / 4\<rparr>)"
proof -
  have h: "length (weights \<lparr>weights = [1 / 4, - 3 / 2], bias = 3 / 4\<rparr>)
     = length (weights (LogisticRegression 2))"
    by (simp add: LogisticRegression_def)
  from save_load_roundtrip[OF h] h show ?thesis by blast
qed

section \<open>Properties of the trainer\<close>

lemma accumulate_row_nth:
  assumes "n \<le> length xi" "n \<le> length g" "j \<le> n"
  shows "\<exists>g'. accumulate_row e xi n j g = Some g' \<and> length g' = length g
           \<and> (\<forall>k < length g. g' ! k = (if j \<le> k \<and> k < n then g ! k + e * xi ! k else g ! k))"
  using assms
proof (induction e xi n j g rule: accumulate_row.induct)
  case (1 e xi n j g)
  show ?case
  proof (cases "j < n")
    case True
    with "1.prems" have jx: "j < length xi" by simp
    let ?g = "g[j := g ! j + e * xi ! j]"
    have unfold: "accumulate_row e xi n j g = accumulate_row e xi n (Suc j) ?g"
      using True jx by (subst accumulate_row.simps) simp
    from "1.IH"[OF True jx] "1.prems" True
    obtain g' where g': "accumulate_row e xi n (Suc j) ?g = Some g'" "length g' = length ?g"
      "\<forall>k < length ?g. g' ! k = (if Suc j \<le> k \<and> k < n then ?g ! k + e * xi ! k else ?g ! k)"
      by auto
    have "\<forall>k < length g. g' ! k = (if j \<le> k \<and> k < n then g ! k + e * xi ! k else g ! k)"
    proof (intro allI impI)
      fix k assume k: "k < length g"
      show "g' ! k = (if j \<le> k \<and> k < n then g ! k + e * xi ! k else g ! k)"
      proof (cases "k = j")
        case True
        with g'(3) k \<open>j < n\<close> show ?thesis by simp
      next
        case False
        with g'(3) k show ?thesis by (auto simp: nth_list_update)
      qed
    qed
    with g'(1,2) unfold show ?thesis by simp
  next
    case False
    with "1.prems" have "j = n" by simp
    then show ?thesis by (subst accumulate_row.simps) simp
  qed
qed

lemma accumulate_row_full:
  assumes "length g = n" "n \<le> length xi"
  shows "accumulate_row e xi n 0 g = Some (map (\<lambda>k. g ! k + e * xi ! k) [0..<n])"
proof -
  from accumulate_row_nth[of n xi g 0 e] assms
  obtain g' where g': "accumulate_row e xi n 0 g = Some g'" "length g' = length g"
    "\<forall>k < length g. g' ! k = (if 0 \<le> k \<and> k < n then g ! k + e * xi ! k else g ! k)"
    by auto
  have "g' = map (\<lambda>k. g ! k + e * xi ! k) [0..<n]"
    using g'(2,3) assms(1) by (intro nth_equalityI) simp_all
  with g'(1) show ?thesis by simp
qed

lemma accumulate_row_short:
  "j \<le> length xi \<Longrightarrow> length xi < n \<Longrightarrow> accumulate_row e xi n j g = None"
proof (induction e xi n j g rule: accumulate_row.induct)
  case (1 e xi n j g)
  show ?case
  proof (cases "j < length xi")
    case True
    then have "accumulate_row e xi n j g
                 = accumulate_row e xi n (Suc j) (g[j := g ! j + e * xi ! j])"
      using "1.prems" by (subst accumulate_row.simps) simp
    then show ?thesis using "1.IH" True "1.prems" by simp
  next
    case False
    then show ?thesis using "1.prems" by (subst accumulate_row.simps) simp
  qed
qed


lemma batch_loop_sums:
  assumes "length y = length X" "\<forall>x \<in> set X. length x = length (weights m)"
    "length gradW = length (weights m)" "i \<le> length X"
  shows "batch_loop m X y i gradW gradB =
     Some (map (\<lambda>j. gradW ! j + sum_list (map (\<lambda>k. spec_error m X y k * X ! k ! j) [i..<length X]))
             [0..<length (weights m)],
           gradB + sum_list (map (spec_error m X y) [i..<length X]))"
  using assms
proof (induction m X y i gradW gradB rule: batch_loop.induct)
  case (1 m X y i gradW gradB)
  show ?case
  proof (cases "i < length X")
    case True
    let ?n = "length (weights m)"
    let ?err = "spec_error m X y i"
    let ?g = "map (\<lambda>k. gradW ! k + ?err * X ! i ! k) [0..<?n]"
    have row: "length (X ! i) = ?n"
      using True "1.prems"(2) by simp
    have iy: "i < length y"
      using True "1.prems"(1) by simp
    have p: "predictProba m (X ! i) = Some (spec_score m (X ! i))"
      using row by (simp add: predictProba_spec)
    have err: "?err = spec_score m (X ! i) - y ! i"
      by (simp add: spec_error_def)
    have acc: "accumulate_row ?err (X ! i) ?n 0 gradW = Some ?g"
      using "1.prems"(3) row by (simp add: accumulate_row_full)
    have unfold: "batch_loop m X y i gradW gradB = batch_loop m X y (Suc i) ?g (gradB + ?err)"
      using True iy p acc by (subst batch_loop.simps) (simp add: err Let_def)
    have IH: "batch_loop m X y (Suc i) ?g (gradB + ?err) =
       Some (map (\<lambda>j. ?g ! j + sum_list (map (\<lambda>k. spec_error m X y k * X ! k ! j) [Suc i..<length X]))
               [0..<?n],
             gradB + ?err + sum_list (map (spec_error m X y) [Suc i..<length X]))"
      using "1.IH"[OF True p iy err acc] "1.prems" True by simp
    have upt: "[i..<length X] = i # [Suc i..<length X]"
      using True by (simp add: upt_conv_Cons)
    have "map (\<lambda>j. ?g ! j + sum_list (map (\<lambda>k. spec_error m X y k * X ! k ! j) [Suc i..<length X]))
               [0..<?n]
        = map (\<lambda>j. gradW ! j + sum_list (map (\<lambda>k. spec_error m X y k * X ! k ! j) [i..<length X]))
               [0..<?n]"
      by (rule map_cong) (simp_all add: upt add.assoc)
    with unfold IH show ?thesis
      by (simp add: upt add.assoc)
  next
    case False
    with "1.prems" have "i = length X" by simp
    moreover have "map ((!) gradW) [0..<length (weights m)] = gradW"
      using "1.prems"(3) by (metis map_nth)
    ultimately show ?thesis by (subst batch_loop.simps) simp
  qed
qed

lemma epoch_step_spec:
  assumes "X \<noteq> []" "length y = length X" "\<forall>x \<in> set X. length x = length (weights m)"
  shows "epoch_step learningRate X y m = Some (spec_batch_update learningRate X y m)"
proof -
  have "batch_loop m X y 0 (replicate (length (weights m)) 0) 0 =
     Some (map (\<lambda>j. replicate (length (weights m)) 0 ! j
                      + sum_list (map (\<lambda>k. spec_error m X y k * X ! k ! j) [0..<length X]))
             [0..<length (weights m)],
           0 + sum_list (map (spec_error m X y) [0..<length X]))"
    using assms by (intro batch_loop_sums) simp_all
  then show ?thesis
    using assms(1) by (simp add: epoch_step_def spec_batch_update_def Let_def)
qed

lemma length_spec_batch_update:
  "length (weights (spec_batch_update learningRate X y m)) = length (weights m)"
  by (simp add: spec_batch_update_def)

lemma funpow_spec_length:
  "length (weights ((spec_batch_update learningRate X y ^^ k) m)) = length (weights m)"
  by (induction k) (simp_all add: length_spec_batch_update)

text \<open>
  Claim C4. On a non-empty data set with one label per example and rows of the model's
  dimension, \<open>train\<close> is the batch update of the specification iterated \<open>epochs\<close>
  times: each epoch computes every error with the weights the epoch started with,
  sums \<open>error * feature\<close> per weight and \<open>error\<close> for the bias, and applies one
  update \<open>learningRate / N * sum\<close>; the number of epochs run is always \<open>epochs\<close>.
\<close>

theorem train_full_batch_gradient_descent:
  assumes "X \<noteq> []" "length y = length X" "\<forall>x \<in> set X. length x = length (weights m)"
  shows "train m X y learningRate epochs
           = Some ((spec_batch_update learningRate X y ^^ epochs) m)"
  using assms
proof (induction epochs arbitrary: m)
  case 0
  then show ?case by simp
next
  case (Suc epochs)
  have step: "epoch_step learningRate X y m = Some (spec_batch_update learningRate X y m)"
    using Suc.prems by (rule epoch_step_spec)
  have "\<forall>x \<in> set X. length x = length (weights (spec_batch_update learningRate X y m))"
    using Suc.prems(3) by (simp add: length_spec_batch_update)
  from Suc.IH[OF Suc.prems(1,2) this] step show ?case
    by (simp add: funpow_swap1)
qed


theorem train_full_batch_gradient_descent_witness:
  "[[1, 0], [0, 1]] \<noteq> ([] :: real list list)
   \<and> length [1, 0 :: real] = length [[1, 0], [0, 1 :: real]]
   \<and> length [1, 0 :: real] = length (weights (LogisticRegression 2))
   \<and> length [0, 1 :: real] = length (weights (LogisticRegression 2))
   \<and> train (LogisticRegression 2) [[1, 0], [0, 1]] [1, 0] (1 / 2) 1
       = Some \<lparr>weights = [1 / 8, - 1 / 8], bias = 0\<rparr>"
proof -
  have h: "[[1, 0], [0, 1]] \<noteq> ([] :: real list list)"
    "length [1, 0 :: real] = length [[1, 0], [0, 1 :: real]]"
    "\<forall>x \<in> set [[1, 0], [0, 1]]. length x = length (weights (LogisticRegression 2))"
    by (simp_all add: LogisticRegression_def)
  have e: "spec_error (LogisticRegression 2) [[1, 0], [0, 1]] [1, 0] 0 = - 1 / 2"
    "spec_error (LogisticRegression 2) [[1, 0], [0, 1]] [1, 0] (Suc 0) = 1 / 2"
    by (simp_all add: spec_error_def spec_score_LogisticRegression)
  have u: "[0..<2] = [0, Suc 0]"
    by (simp add: upt_rec)
  have "spec_batch_update (1 / 2) [[1, 0], [0, 1]] [1, 0] (LogisticRegression 2)
          = \<lparr>weights = [1 / 8, - 1 / 8], bias = 0\<rparr>"
    by (simp add: spec_batch_update_def u e) (simp add: LogisticRegression_def u)
  with train_full_batch_gradient_descent[OF h, of "1 / 2" 1] h(1,2) show ?thesis
    by (simp add: LogisticRegression_def)
qed

text \<open>Training on no example leaves the numbers: the update divides by zero.\<close>

lemma train_empty_dataset: "train m [] y learningRate (Suc epochs) = None"
proof -
  have "batch_loop m [] y 0 (replicate (length (weights m)) 0) 0
          = Some (replicate (length (weights m)) 0, 0)"
    by (subst batch_loop.simps) simp
  then show ?thesis by (simp add: epoch_step_def)
qed

text \<open>Training keeps the dimension of the model.\<close>

lemma epoch_step_length:
  "epoch_step learningRate X y m = Some m' \<Longrightarrow> length (weights m') = length (weights m)"
  by (auto simp: epoch_step_def Let_def split: option.splits if_splits)

lemma train_length:
  "train m X y learningRate epochs = Some m' \<Longrightarrow> length (weights m') = length (weights m)"
proof (induction epochs arbitrary: m)
  case 0
  then show ?case by simp
next
  case (Suc epochs)
  then show ?case
    by (auto split: option.splits dest: epoch_step_length)
qed

section \<open>Properties of the dataset generator\<close>

text \<open>
  The variable of a generator is exact below \<open>2^53\<close>; at \<open>2^53\<close> the first sum is a
  tie and is rounded to the even neighbour.
\<close>

lemma to_double_exact: "\<bar>x\<bar> < 2 ^ 53 \<Longrightarrow> to_double x = x"
proof -
  assume small: "\<bar>x\<bar> < 2 ^ 53"
  have "bitlen \<bar>x\<bar> \<le> 53"
  proof (cases "\<bar>x\<bar> > 0")
    case True
    from bitlen_bounds[OF True] small
    have "(2::int) ^ nat (bitlen \<bar>x\<bar> - 1) < 2 ^ 53"
      by linarith
    then have "nat (bitlen \<bar>x\<bar> - 1) < 53"
      using power_less_imp_less_exp[of "2::int" "nat (bitlen \<bar>x\<bar> - 1)" 53] by simp
    then show ?thesis by linarith
  next
    case False
    then have "\<bar>x\<bar> = 0" by simp
    then show ?thesis by simp
  qed
  then show ?thesis
    by (simp add: to_double_def Let_def)
qed

lemma to_double_tie: "to_double (2 ^ 53 + 1831565813) = 9007201086306804"
  by code_simp

lemma rand_at_2_53:
  "fst (rand 0 (one_generator (2 ^ 53))) = 3850105811 / 4294967296"
proof -
  have "to_double (9007199254740992 + 1831565813) = 9007201086306804"
    using to_double_tie by simp
  then show ?thesis
    by (simp add: rand_def one_generator_def Let_def)
qed

text \<open>
  A call of a generator depends on the heap only through the generator's own variable,
  and writes to no other cell. The same holds of every loop that draws from it.
\<close>

lemma rand_local:
  assumes "cell h1 r1 = cell h2 r2"
  shows "fst (rand r1 h1) = fst (rand r2 h2)
         \<and> cell (snd (rand r1 h1)) r1 = cell (snd (rand r2 h2)) r2"
  using assms by (simp add: rand_def Let_def)

lemma rand_frame: "r' \<noteq> r \<Longrightarrow> cell (snd (rand r h)) r' = cell h r'"
  by (simp add: rand_def Let_def)

lemma pick_words_local:
  assumes "cell h1 r1 = cell h2 r2"
  shows "fst (pick_words k r1 h1) = fst (pick_words k r2 h2)
         \<and> cell (snd (pick_words k r1 h1)) r1 = cell (snd (pick_words k r2 h2)) r2"
  using assms
proof (induction k arbitrary: h1 h2)
  case 0
  then show ?case by simp
next
  case (Suc k)
  from rand_local[OF Suc.prems]
  have v: "fst (rand r1 h1) = fst (rand r2 h2)"
    and c: "cell (snd (rand r1 h1)) r1 = cell (snd (rand r2 h2)) r2"
    by simp_all
  from Suc.IH[OF c] v show ?case
    by (simp add: case_prod_beta Let_def)
qed

lemma randomAudience_local:
  assumes "cell h1 r1 = cell h2 r2"
  shows "fst (randomAudience r1 h1) = fst (randomAudience r2 h2)
         \<and> cell (snd (randomAudience r1 h1)) r1 = cell (snd (randomAudience r2 h2)) r2"
proof -
  from rand_local[OF assms]
  have v: "fst (rand r1 h1) = fst (rand r2 h2)"
    and c: "cell (snd (rand r1 h1)) r1 = cell (snd (rand r2 h2)) r2"
    by simp_all
  from pick_words_local[OF c] v show ?thesis
    by (simp add: randomAudience_def case_prod_beta Let_def)
qed

lemma sample_local:
  assumes "cell h1 r1 = cell h2 r2"
  shows "fst (sample r1 h1) = fst (sample r2 h2)
         \<and> cell (snd (sample r1 h1)) r1 = cell (snd (sample r2 h2)) r2"
proof -
  let ?a1 = "snd (rand r1 h1)" and ?a2 = "snd (rand r2 h2)"
  let ?b1 = "snd (rand r1 ?a1)" and ?b2 = "snd (rand r2 ?a2)"
  let ?c1 = "snd (rand r1 ?b1)" and ?c2 = "snd (rand r2 ?b2)"
  let ?d1 = "snd (randomAudience r1 ?c1)" and ?d2 = "snd (randomAudience r2 ?c2)"
  from rand_local[OF assms]
  have v1: "fst (rand r1 h1) = fst (rand r2 h2)" and a: "cell ?a1 r1 = cell ?a2 r2"
    by simp_all
  from rand_local[OF a]
  have v2: "fst (rand r1 ?a1) = fst (rand r2 ?a2)" and b: "cell ?b1 r1 = cell ?b2 r2"
    by simp_all
  from rand_local[OF b]
  have v3: "fst (rand r1 ?b1) = fst (rand r2 ?b2)" and c: "cell ?c1 r1 = cell ?c2 r2"
    by simp_all
  from randomAudience_local[OF c]
  have v4: "fst (randomAudience r1 ?c1) = fst (randomAudience r2 ?c2)"
    and d: "cell ?d1 r1 = cell ?d2 r2"
    by simp_all
  from rand_local[OF d]
  have v5: "fst (rand r1 ?d1) = fst (rand r2 ?d2)"
    and e: "cell (snd (rand r1 ?d1)) r1 = cell (snd (rand r2 ?d2)) r2"
    by simp_all
  show ?thesis
    by (simp only: sample_def case_prod_beta Let_def fst_conv snd_conv v1 v2 v3 v4 v5 e
        simp_thms)
qed

lemma gen_loop_local:
  assumes "cell h1 r1 = cell h2 r2"
  shows "fst (gen_loop k r1 h1 d) = fst (gen_loop k r2 h2 d)"
  using assms
proof (induction k arbitrary: h1 h2 d)
  case 0
  then show ?case by simp
next
  case (Suc k)
  from sample_local[OF Suc.prems]
  have v: "fst (sample r1 h1) = fst (sample r2 h2)"
    and c: "cell (snd (sample r1 h1)) r1 = cell (snd (sample r2 h2)) r2"
    by simp_all
  from Suc.IH[OF c] v show ?case
    by (simp add: case_prod_beta Let_def)
qed

text \<open>
  Claim C6. Two invocations with the same count and seed return the same data set
  (feature vectors, labels and raw rows), whatever the heaps they run in: an invocation
  reads no state but the generator it makes from the seed. In particular a second
  invocation, run in the heap that the first one left, returns what the first
  returned.
\<close>

theorem generateSyntheticDataset_deterministic:
  "fst (generateSyntheticDataset numSamples seed h1)
     = fst (generateSyntheticDataset numSamples seed h2)
   \<and> fst (generateSyntheticDataset numSamples seed
             (snd (generateSyntheticDataset numSamples seed h1)))
     = fst (generateSyntheticDataset numSamples seed h1)"
proof -
  have "fst (generateSyntheticDataset numSamples seed h)
          = fst (generateSyntheticDataset numSamples seed h')" for h h'
    unfolding generateSyntheticDataset_def mulberry32_def Let_def prod.case
    by (rule gen_loop_local) simp
  then show ?thesis by blast
qed

lemma sigmoid_gt_half: "sigmoid z > 0.5 \<longleftrightarrow> z > 0"
proof -
  have "sigmoid z > 1 / 2 \<longleftrightarrow> 1 + exp (- z) < 2"
    unfolding sigmoid_def by (simp add: divide_simps add_pos_pos)
  also have "\<dots> \<longleftrightarrow> exp (- z) < exp 0" by simp
  also have "\<dots> \<longleftrightarrow> z > 0" by (subst exp_less_cancel_iff) simp
  finally show ?thesis by simp
qed

lemma mulberry32_no_generator: "mulberry32 a no_generator = (0, one_generator a)"
  by (simp add: mulberry32_def no_generator_def one_generator_def)

text \<open>
  A run on concrete arguments: the two examples for seed 80, in the heap of a program
  that has made no generator before. The sixteen numbers drawn are computed from the
  definition of \<open>rand\<close>.
\<close>

lemma rand_80_0:
  "rand 0 (one_generator 80) = (3370840158 / 4294967296, one_generator 1831565893)"
  by (simp add: rand_def one_generator_def Let_def to_double_exact)

lemma rand_80_1:
  "rand 0 (one_generator 1831565893) = (3055384686 / 4294967296, one_generator 3663131706)"
  by (simp add: rand_def one_generator_def Let_def to_double_exact)

lemma rand_80_2:
  "rand 0 (one_generator 3663131706) = (3175528173 / 4294967296, one_generator 5494697519)"
  by (simp add: rand_def one_generator_def Let_def to_double_exact)

lemma rand_80_3:
  "rand 0 (one_generator 5494697519) = (437395716 / 4294967296, one_generator 7326263332)"
  by (simp add: rand_def one_generator_def Let_def to_double_exact)

lemma rand_80_4:
  "rand 0 (one_generator 7326263332) = (3261847543 / 4294967296, one_generator 9157829145)"
  by (simp add: rand_def one_generator_def Let_def to_double_exact)

lemma rand_80_5:
  "rand 0 (one_generator 9157829145) = (3796500909 / 4294967296, one_generator 10989394958)"
  by (simp add: rand_def one_generator_def Let_def to_double_exact)

lemma rand_80_6:
  "rand 0 (one_generator 10989394958) = (2756788151 / 4294967296, one_generator 12820960771)"
  by (simp add: rand_def one_generator_def Let_def to_double_exact)

lemma rand_80_7:
  "rand 0 (one_generator 12820960771) = (2851957229 / 4294967296, one_generator 14652526584)"
  by (simp add: rand_def one_generator_def Let_def to_double_exact)

lemma rand_80_8:
  "rand 0 (one_generator 14652526584) = (72489325 / 4294967296, one_generator 16484092397)"
  by (simp add: rand_def one_generator_def Let_def to_double_exact)

lemma rand_80_9:
  "rand 0 (one_generator 16484092397) = (934984565 / 4294967296, one_generator 18315658210)"
  by (simp add: rand_def one_generator_def Let_def to_double_exact)

lemma rand_80_10:
  "rand 0 (one_generator 18315658210) = (2655853521 / 4294967296, one_generator 20147224023)"
  by (simp add: rand_def one_generator_def Let_def to_double_exact)

lemma rand_80_11:
  "rand 0 (one_generator 20147224023) = (191061 / 4294967296, one_generator 21978789836)"
  by (simp add: rand_def one_generator_def Let_def to_double_exact)

lemma rand_80_12:
  "rand 0 (one_generator 21978789836) = (2685160429 / 4294967296, one_generator 23810355649)"
  by (simp add: rand_def one_generator_def Let_def to_double_exact)

lemma rand_80_13:
  "rand 0 (one_generator 23810355649) = (1312593955 / 4294967296, one_generator 25641921462)"
  by (simp add: rand_def one_generator_def Let_def to_double_exact)

lemma rand_80_14:
  "rand 0 (one_generator 25641921462) = (2211743178 / 4294967296, one_generator 27473487275)"
  by (simp add: rand_def one_generator_def Let_def to_double_exact)

lemma rand_80_15:
  "rand 0 (one_generator 27473487275) = (2299247155 / 4294967296, one_generator 29305053088)"
  by (simp add: rand_def one_generator_def Let_def to_double_exact)

lemmas rand_80 = rand_80_0 rand_80_1 rand_80_2 rand_80_3 rand_80_4 rand_80_5
  rand_80_6 rand_80_7 rand_80_8 rand_80_9 rand_80_10 rand_80_11
  rand_80_12 rand_80_13 rand_80_14 rand_80_15

lemma lower_infrastructure: "toLowerCase ''infrastructure'' = ''infrastructure''"
  by code_simp

lemma lower_inland: "toLowerCase ''inland'' = ''inland''"
  by code_simp

lemma pick_words_80_1:
  "pick_words (Suc (Suc (Suc 0))) 0 (one_generator 7326263332)
     = ([Some ''tourists'', Some ''parents'', Some ''commuters''], one_generator 12820960771)"
  apply (simp only: pick_words.simps rand_80 Let_def prod.case)
  apply (simp add: words_def)
  apply (simp add: nth_opt_def)
  done

lemma count_80_1:
  "(case nth_opt lengths (nat \<lfloor>(437395716 / 4294967296 :: real) * real (length lengths)\<rfloor>) of
      None \<Rightarrow> 0 | Some l \<Rightarrow> l div 6) = Suc (Suc (Suc 0))"
  apply (simp add: lengths_def)
  apply (simp add: nth_opt_def)
  done

lemma randomAudience_80_1:
  "randomAudience 0 (one_generator 5494697519) = (''tourists parents commuters'', one_generator 12820960771)"
  apply (simp only: randomAudience_def rand_80 Let_def prod.case count_80_1 pick_words_80_1)
  apply (simp add: orEmpty_def)
  done

lemma cat_80_1:
  "nth_opt CATEGORY_VALUES
     (nat \<lfloor>(3370840158 / 4294967296 :: real) * real (length CATEGORY_VALUES)\<rfloor>) = Some ''infrastructure''"
  apply (simp add: CATEGORY_VALUES_def)
  apply (simp add: nth_opt_def)
  done

lemma loc_80_1:
  "nth_opt LOCATION_VALUES
     (nat \<lfloor>(3055384686 / 4294967296 :: real) * real (length LOCATION_VALUES)\<rfloor>) = Some ''inland''"
  apply (simp add: LOCATION_VALUES_def)
  apply (simp add: nth_opt_def)
  done

lemma funding_80_1: "real_of_int \<lfloor>(3175528173 / 4294967296 :: real) * 300000\<rfloor> = 221808"
  by simp

lemma label_80_1:
  "(if sigmoid (0.0 + categoryBase (Some ''infrastructure'') - (221808 / 300000) * 1.2
        + min 1 (real (length ''tourists parents commuters'') / 200) * 0.6
        + locationBase (Some ''inland'')
        + (2851957229 / 4294967296 - 0.5) * 0.3) > 0.5 then 1 else 0) = (0::real)"
proof -
  have b: "0.0 + categoryBase (Some ''infrastructure'') - (221808 / 300000) * 1.2
        + min 1 (real (length ''tourists parents commuters'') / 200) * 0.6
        + locationBase (Some ''inland'')
        + (2851957229 / 4294967296 - 0.5) * 0.3 = (- 28189090243021 / 134217728000000 :: real)"
    by (simp add: categoryBase_def locationBase_def orEmpty_def lower_infrastructure lower_inland)
  have "sigmoid (- 28189090243021 / 134217728000000) > 0.5 \<longleftrightarrow> False"
    by (subst sigmoid_gt_half) simp
  then show ?thesis
    by (simp only: b if_False)
qed

lemma sample_80_1:
  "sample 0 (one_generator 80) =
     ((buildFeatures \<lparr>category = Some ''infrastructure'', requiredFunding = Some 221808,
         targetAudience = Some ''tourists parents commuters'', authorLocation = Some ''inland''\<rparr>,
       0,
       \<lparr>category = Some ''infrastructure'', requiredFunding = Some 221808,
         targetAudience = Some ''tourists parents commuters'', authorLocation = Some ''inland'',
         success = 0\<rparr>), one_generator 14652526584)"
  by (simp only: sample_def rand_80 Let_def prod.case randomAudience_80_1
      cat_80_1 loc_80_1 funding_80_1 label_80_1)

lemma lower_agriculture: "toLowerCase ''agriculture'' = ''agriculture''"
  by code_simp

lemma lower_suburban: "toLowerCase ''suburban'' = ''suburban''"
  by code_simp

lemma pick_words_80_2:
  "pick_words (Suc (Suc (Suc 0))) 0 (one_generator 21978789836)
     = ([Some ''commuters'', Some ''patients'', Some ''teachers''], one_generator 27473487275)"
  apply (simp only: pick_words.simps rand_80 Let_def prod.case)
  apply (simp add: words_def)
  apply (simp add: nth_opt_def)
  done

lemma count_80_2:
  "(case nth_opt lengths (nat \<lfloor>(191061 / 4294967296 :: real) * real (length lengths)\<rfloor>) of
      None \<Rightarrow> 0 | Some l \<Rightarrow> l div 6) = Suc (Suc (Suc 0))"
  apply (simp add: lengths_def)
  apply (simp add: nth_opt_def)
  done

lemma randomAudience_80_2:
  "randomAudience 0 (one_generator 20147224023) = (''commuters patients teachers'', one_generator 27473487275)"
  apply (simp only: randomAudience_def rand_80 Let_def prod.case count_80_2 pick_words_80_2)
  apply (simp add: orEmpty_def)
  done

lemma cat_80_2:
  "nth_opt CATEGORY_VALUES
     (nat \<lfloor>(72489325 / 4294967296 :: real) * real (length CATEGORY_VALUES)\<rfloor>) = Some ''agriculture''"
  apply (simp add: CATEGORY_VALUES_def)
  apply (simp add: nth_opt_def)
  done

lemma loc_80_2:
  "nth_opt LOCATION_VALUES
     (nat \<lfloor>(934984565 / 4294967296 :: real) * real (length LOCATION_VALUES)\<rfloor>) = Some ''suburban''"
  apply (simp add: LOCATION_VALUES_def)
  apply (simp add: nth_opt_def)
  done

lemma funding_80_2: "real_of_int \<lfloor>(2655853521 / 4294967296 :: real) * 300000\<rfloor> = 185509"
  by simp

lemma label_80_2:
  "(if sigmoid (0.0 + categoryBase (Some ''agriculture'') - (185509 / 300000) * 1.2
        + min 1 (real (length ''commuters patients teachers'') / 200) * 0.6
        + locationBase (Some ''suburban'')
        + (2299247155 / 4294967296 - 0.5) * 0.3) > 0.5 then 1 else 0) = (1::real)"
proof -
  have b: "0.0 + categoryBase (Some ''agriculture'') - (185509 / 300000) * 1.2
        + min 1 (real (length ''commuters patients teachers'') / 200) * 0.6
        + locationBase (Some ''suburban'')
        + (2299247155 / 4294967296 - 0.5) * 0.3 = (26785101631917 / 134217728000000 :: real)"
    by (simp add: categoryBase_def locationBase_def orEmpty_def lower_agriculture lower_suburban)
  have "sigmoid (26785101631917 / 134217728000000) > 0.5"
    by (subst sigmoid_gt_half) simp
  then show ?thesis
    by (simp only: b if_True)
qed

lemma sample_80_2:
  "sample 0 (one_generator 14652526584) =
     ((buildFeatures \<lparr>category = Some ''agriculture'', requiredFunding = Some 185509,
         targetAudience = Some ''commuters patients teachers'', authorLocation = Some ''suburban''\<rparr>,
       1,
       \<lparr>category = Some ''agriculture'', requiredFunding = Some 185509,
         targetAudience = Some ''commuters patients teachers'', authorLocation = Some ''suburban'',
         success = 1\<rparr>), one_generator 29305053088)"
  by (simp only: sample_def rand_80 Let_def prod.case randomAudience_80_2
      cat_80_2 loc_80_2 funding_80_2 label_80_2)

lemma generate_80:
  "generateSyntheticDataset 2 80 no_generator =
     (\<lparr>Xs = [buildFeatures \<lparr>category = Some ''infrastructure'', requiredFunding = Some 221808,
           targetAudience = Some ''tourists parents commuters'', authorLocation = Some ''inland''\<rparr>,
            buildFeatures \<lparr>category = Some ''agriculture'', requiredFunding = Some 185509,
           targetAudience = Some ''commuters patients teachers'', authorLocation = Some ''suburban''\<rparr>],
      ys = [0, 1],
      rawRows = [\<lparr>category = Some ''infrastructure'', requiredFunding = Some 221808,
           targetAudience = Some ''tourists parents commuters'', authorLocation = Some ''inland'',
           success = 0\<rparr>,
         \<lparr>category = Some ''agriculture'', requiredFunding = Some 185509,
           targetAudience = Some ''commuters patients teachers'', authorLocation = Some ''suburban'',
           success = 1\<rparr>]\<rparr>, one_generator 29305053088)"
proof -
  have two: "(2::nat) = Suc (Suc 0)"
    by simp
  show ?thesis
    unfolding generateSyntheticDataset_def mulberry32_no_generator two
    by (simp add: sample_80_1 sample_80_2)
qed

text \<open>
  Every number drawn lies in \<open>[0,1)\<close>, so the indices computed from it are in range
  and the reads of the tables never give \<open>undefined\<close>.
\<close>

lemma rand_range: "0 \<le> fst (rand r h) \<and> fst (rand r h) < 1"
proof -
  have "\<exists>w :: 32 word. fst (rand r h) = real (unat w) / 4294967296"
    unfolding rand_def Let_def fst_conv by (rule exI) (rule refl)
  then obtain w :: "32 word" where w: "fst (rand r h) = real (unat w) / 4294967296"
    by blast
  have "unat w < 4294967296"
    using unsigned_less[of w, where 'a = nat] by simp
  then have "real (unat w) < 4294967296"
    by (simp del: of_nat_unat)
  then show ?thesis
    by (simp add: w del: of_nat_unat)
qed

lemma index_in_range:
  assumes "0 \<le> v" "v < 1" "0 < n"
  shows "nat \<lfloor>v * real n\<rfloor> < n"
proof -
  have "v * real n < real n"
    using assms by simp
  then have "\<lfloor>v * real n\<rfloor> < int n"
    by (simp add: floor_less_iff)
  then show ?thesis
    using assms(3) by simp
qed

lemma rand_index_defined:
  "xs \<noteq> [] \<Longrightarrow> nth_opt xs (nat \<lfloor>fst (rand r h) * real (length xs)\<rfloor>) \<noteq> None"
  using index_in_range[of "fst (rand r h)" "length xs"] rand_range[of r h]
  by (simp add: nth_opt_def)

lemma sample_cases:
  obtains f l row h' where "sample r h = ((f, l, row), h')"
proof -
  obtain e h' where e: "sample r h = (e, h')"
    by (cases "sample r h")
  obtain f l row where "e = (f, l, row)"
    by (cases e)
  with e that show ?thesis by simp
qed

lemma gen_loop_length:
  "length (Xs (fst (gen_loop k r h d))) = length (Xs d) + k
   \<and> length (ys (fst (gen_loop k r h d))) = length (ys d) + k
   \<and> length (rawRows (fst (gen_loop k r h d))) = length (rawRows d) + k"
proof (induction k arbitrary: h d)
  case 0
  then show ?case by simp
next
  case (Suc k)
  obtain f l row h' where s: "sample r h = ((f, l, row), h')"
    by (rule sample_cases)
  show ?case
    using Suc.IH[where h = h'
        and d = "\<lparr>Xs = Xs d @ [f], ys = ys d @ [l], rawRows = rawRows d @ [row]\<rparr>"]
    by (simp add: s)
qed

lemma generateSyntheticDataset_length:
  "length (Xs (fst (generateSyntheticDataset numSamples seed h))) = numSamples
   \<and> length (ys (fst (generateSyntheticDataset numSamples seed h))) = numSamples
   \<and> length (rawRows (fst (generateSyntheticDataset numSamples seed h))) = numSamples"
  using gen_loop_length[where k = numSamples and d = "\<lparr>Xs = [], ys = [], rawRows = []\<rparr>"]
  by (simp add: generateSyntheticDataset_def mulberry32_def)

text \<open>An invocation leaves the variables of the generators made before it as they were.\<close>

lemma pick_words_frame: "r' \<noteq> r \<Longrightarrow> cell (snd (pick_words k r h)) r' = cell h r'"
proof (induction k arbitrary: h)
  case 0
  then show ?case by simp
next
  case (Suc k)
  from Suc.IH[OF Suc.prems, of "snd (rand r h)"] rand_frame[OF Suc.prems, of h]
  show ?case
    by (simp add: case_prod_beta Let_def)
qed

lemma randomAudience_frame: "r' \<noteq> r \<Longrightarrow> cell (snd (randomAudience r h)) r' = cell h r'"
  by (simp add: randomAudience_def case_prod_beta Let_def pick_words_frame rand_frame)

lemma sample_frame: "r' \<noteq> r \<Longrightarrow> cell (snd (sample r h)) r' = cell h r'"
  by (simp add: sample_def case_prod_beta Let_def randomAudience_frame rand_frame)

lemma gen_loop_frame: "r' \<noteq> r \<Longrightarrow> cell (snd (gen_loop k r h d)) r' = cell h r'"
proof (induction k arbitrary: h d)
  case 0
  then show ?case by simp
next
  case (Suc k)
  obtain f l row h' where s: "sample r h = ((f, l, row), h')"
    by (rule sample_cases)
  have "cell h' r' = cell h r'"
    using sample_frame[OF Suc.prems, of h] by (simp add: s)
  with Suc.IH[OF Suc.prems, of h'] show ?case
    by (simp add: s)
qed

lemma generateSyntheticDataset_frame:
  "r' < fresh h \<Longrightarrow> cell (snd (generateSyntheticDataset numSamples seed h)) r' = cell h r'"
  by (simp add: generateSyntheticDataset_def mulberry32_def gen_loop_frame)

text \<open>
  The two invocations on the concrete arguments: both return the two examples computed
  above.
\<close>

theorem generateSyntheticDataset_deterministic_witness:
  "fst (generateSyntheticDataset 2 80 no_generator) =
     \<lparr>Xs = [buildFeatures \<lparr>category = Some ''infrastructure'', requiredFunding = Some 221808,
           targetAudience = Some ''tourists parents commuters'', authorLocation = Some ''inland''\<rparr>,
            buildFeatures \<lparr>category = Some ''agriculture'', requiredFunding = Some 185509,
           targetAudience = Some ''commuters patients teachers'', authorLocation = Some ''suburban''\<rparr>],
      ys = [0, 1],
      rawRows = [\<lparr>category = Some ''infrastructure'', requiredFunding = Some 221808,
           targetAudience = Some ''tourists parents commuters'', authorLocation = Some ''inland'',
           success = 0\<rparr>,
         \<lparr>category = Some ''agriculture'', requiredFunding = Some 185509,
           targetAudience = Some ''commuters patients teachers'', authorLocation = Some ''suburban'',
           success = 1\<rparr>]\<rparr>
   \<and> fst (generateSyntheticDataset 2 80 (snd (generateSyntheticDataset 2 80 no_generator))) =
     \<lparr>Xs = [buildFeatures \<lparr>category = Some ''infrastructure'', requiredFunding = Some 221808,
           targetAudience = Some ''tourists parents commuters'', authorLocation = Some ''inland''\<rparr>,
            buildFeatures \<lparr>category = Some ''agriculture'', requiredFunding = Some 185509,
           targetAudience = Some ''commuters patients teachers'', authorLocation = Some ''suburban''\<rparr>],
      ys = [0, 1],
      rawRows = [\<lparr>category = Some ''infrastructure'', requiredFunding = Some 221808,
           targetAudience = Some ''tourists parents commuters'', authorLocation = Some ''inland'',
           success = 0\<rparr>,
         \<lparr>category = Some ''agriculture'', requiredFunding = Some 185509,
           targetAudience = Some ''commuters patients teachers'', authorLocation = Some ''suburban'',
           success = 1\<rparr>]\<rparr>"
  using generateSyntheticDataset_deterministic[of 2 80 no_generator no_generator] generate_80
  by simp

end
